theory Spec2Isabelle
  imports Complex_Main "HOL-Library.Word" "HOL-Library.Signed_Division"
begin

section \<open>Swift's \<open>Int\<close> and \<open>Float\<close>\<close>

text \<open>
  The Swift function under verification is
  \<^verbatim>\<open>
  public func division(_ a: Int, _ b: Int) throws -> Float {
      if a == 0 && b == 0 {
          throw DivByZero.bothAreZero
      } else if b == 0 {
          throw DivByZero.divisorIsZero
      } else {
          return Float(a / b)
      }
  }
  \<close>
  \<open>Int\<close> is the 64-bit two's complement integer of the arm64 target the repository
  builds for; it is read with \<open>sint\<close>.
\<close>

type_synonym swift_Int = "64 word"

definition Int_min :: swift_Int where
  "Int_min = word_of_int (- (2 ^ 63))"

definition Int_max :: swift_Int where
  "Int_max = word_of_int (2 ^ 63 - 1)"

text \<open>
  The operator \<open>/\<close> on \<open>Int\<close>. It stops the process (\<open>None\<close>) when the divisor is zero
  and when the quotient does not fit, which happens for \<open>Int.min / -1\<close> only; otherwise
  the quotient is rounded towards zero (\<open>sdiv\<close> on \<open>int\<close>).
\<close>

definition Int_divide :: "swift_Int \<Rightarrow> swift_Int \<Rightarrow> swift_Int option" where
  "Int_divide a b =
     (if b = 0 then None
      else if a = Int_min \<and> b = - 1 then None
      else Some (word_of_int (sint a sdiv sint b)))"

text \<open>
  \<open>Float\<close> is IEEE binary32. The program builds its only \<open>Float\<close> with the initialiser
  \<open>Float(_: Int)\<close>, which rounds to the nearest value with a 24-bit significand, ties to
  the even significand. Each such value is finite, so a \<open>Float\<close> is modelled by the exact
  rational number it denotes.
\<close>

type_synonym Float = rat

text \<open>
  \<open>Float_shift m\<close> is the number of low bits that a magnitude \<open>m\<close> loses when it is
  cut to 24 significant bits.
\<close>

function Float_shift :: "int \<Rightarrow> nat" where
  "Float_shift m = (if m < 2 ^ 24 then 0 else Suc (Float_shift (m div 2)))"
  by pat_completeness auto
termination
  by (relation "measure nat") auto

definition Float_round :: "int \<Rightarrow> int" where
  "Float_round n =
     (let m = \<bar>n\<bar>
      in if m < 2 ^ 24 then n
         else
           let e = Float_shift m;
               q = m div 2 ^ e;
               r = m mod 2 ^ e;
               h = 2 ^ (e - 1);
               q' = (if h < r \<or> (r = h \<and> odd q) then q + 1 else q)
           in sgn n * (q' * 2 ^ e))"

definition Float_init :: "swift_Int \<Rightarrow> Float" where
  "Float_init n = of_int (Float_round (sint n))"

section \<open>The error domain and the Swift function\<close>

datatype DivByZero = divisorIsZero | bothAreZero

text \<open>
  How a call ends: it returns a value, it throws (a Swift error, or a C++ exception), or
  the process traps and nothing is delivered to the caller.
\<close>

datatype ('e, 'a) outcome = is_Returned: Returned 'a | is_Thrown: Thrown 'e | Trapped

definition division :: "swift_Int \<Rightarrow> swift_Int \<Rightarrow> (DivByZero, Float) outcome" where
  "division a b =
     (if a = 0 \<and> b = 0 then Thrown bothAreZero
      else if b = 0 then Thrown divisorIsZero
      else (case Int_divide a b of
              None \<Rightarrow> Trapped
            | Some q \<Rightarrow> Returned (Float_init q)))"

text \<open>
  The same function as the runs it can take. One invocation evaluates the conditions of
  the \<open>if\<close> chain in order and ends at the first \<open>throw\<close> or at the \<open>return\<close>; each rule is
  one path through the body, under the conditions that lead to it. \<open>division_run a b r\<close>
  says that an invocation on \<open>a\<close> and \<open>b\<close> can end with \<open>r\<close>.
\<close>

inductive division_run :: "swift_Int \<Rightarrow> swift_Int \<Rightarrow> (DivByZero, Float) outcome \<Rightarrow> bool" where
  run_bothAreZero:
    "a = 0 \<and> b = 0 \<Longrightarrow> division_run a b (Thrown bothAreZero)"
| run_divisorIsZero:
    "\<not> (a = 0 \<and> b = 0) \<Longrightarrow> b = 0 \<Longrightarrow> division_run a b (Thrown divisorIsZero)"
| run_return:
    "\<not> (a = 0 \<and> b = 0) \<Longrightarrow> b \<noteq> 0 \<Longrightarrow> Int_divide a b = Some q
      \<Longrightarrow> division_run a b (Returned (Float_init q))"
| run_trap:
    "\<not> (a = 0 \<and> b = 0) \<Longrightarrow> b \<noteq> 0 \<Longrightarrow> Int_divide a b = None
      \<Longrightarrow> division_run a b Trapped"

code_pred division_run .

section \<open>Errors at the language boundary\<close>

text \<open>
  A Swift function throws a value of any type that conforms to \<open>Error\<close>. \<open>DivByZero\<close> is
  the one domain this program declares; a value of any other domain is given by the name
  of its domain and the number of its case.
\<close>

datatype domain_id = DivByZero_domain | Foreign_domain string

datatype error_value = DivByZero_value DivByZero | Foreign_value string nat

fun domain_of :: "error_value \<Rightarrow> domain_id" where
  "domain_of (DivByZero_value c) = DivByZero_domain"
| "domain_of (Foreign_value d n) = Foreign_domain d"

text \<open>
  Modelled from the spec: the class \<open>Swift::Error\<close> (the Opaque Error Carrier) of the
  Swift interoperability header, which the programs of the repository include and do not
  define. The spec: "a runtime handle to exactly one Error Value of exactly one error
  domain, plus enough runtime type information to answer `is this carrier's contents an
  instance of domain D?'", implemented as "a tagged carrier storing a domain identifier
  alongside an opaque handle".
\<close>

record Error =
  recorded_domain :: domain_id
  handle :: error_value

text \<open>
  Modelled from the spec: the constructor \<open>Swift::Error(opaqueError)\<close>, absent from the
  repository. It builds the Carrier "over the signaled error value".
\<close>

definition Error_init :: "error_value \<Rightarrow> Error" where
  "Error_init p = \<lparr>recorded_domain = domain_of p, handle = p\<rparr>"

text \<open>
  Modelled from the spec: the member \<open>as<DomainType>()\<close> of \<open>Swift::Error\<close>, absent from
  the repository. The spec: "Returns an optional: present and equal to the original case
  if the Carrier's runtime-recorded domain matches DomainType exactly; absent otherwise";
  "recovery compares the requested domain's identifier against the stored one before
  reinterpreting the handle"; "must never mutate the Carrier". The call returns the
  optional together with the Carrier as the call leaves it.
\<close>

definition as_domain :: "domain_id \<Rightarrow> Error \<Rightarrow> error_value option \<times> Error" where
  "as_domain D e = (if recorded_domain e = D then Some (handle e) else None, e)"

text \<open>
  Modelled from the spec: the class \<open>Swift::Expected<T>\<close> (the Result) of the Swift
  interoperability header, absent from the repository. The spec: "a discriminated union
  holding exactly one of {success value of type T, Opaque Error Carrier}"; the README:
  "can be initialized to hold either a Swift::Error or a value of type T, never
  simultaneously".
\<close>

datatype 'a Expected = Expected_of_value 'a | Expected_of_error Error

text \<open>
  Modelled from the spec: how a call of an accessor of \<open>Swift::Expected<T>\<close> ends, the
  class being absent from the repository. A call that breaks the accessor's precondition
  is "fatal (aborts or raises a contract-violation signal) rather than silently returning
  a meaningless default".
\<close>

datatype 'a access = Got 'a | Aborted

text \<open>
  Modelled from the spec: the member \<open>has_value()\<close> of \<open>Swift::Expected<T>\<close>, absent from
  the repository: "hasValue() (never fails)".
\<close>

fun has_value :: "'a Expected \<Rightarrow> bool" where
  "has_value (Expected_of_value v) = True"
| "has_value (Expected_of_error e) = False"

text \<open>
  Modelled from the spec: the member \<open>value()\<close> of \<open>Swift::Expected<T>\<close>, absent from the
  repository: "value() (precondition: hasValue() is true)".
\<close>

fun Expected_value :: "'a Expected \<Rightarrow> 'a access" where
  "Expected_value (Expected_of_value v) = Got v"
| "Expected_value (Expected_of_error e) = Aborted"

text \<open>
  Modelled from the spec: the member \<open>error()\<close> of \<open>Swift::Expected<T>\<close>, absent from the
  repository: "error() (precondition: hasValue() is false)".
\<close>

fun Expected_error :: "'a Expected \<Rightarrow> Error access" where
  "Expected_error (Expected_of_error e) = Got e"
| "Expected_error (Expected_of_value v) = Aborted"

section \<open>The call shim\<close>

text \<open>
  The generated C++ function, as the README gives it:
  \<^verbatim>\<open>
  inline Swift::ThrowingResult<float> division(swift::Int a, swift::Int b) {
    void* opaqueError = nullptr;
    void* _ctx = nullptr;
    auto returnValue = _impl::$s9Functions8divisionySfSi_SitKF(a,b,_ctx,&opaqueError);
    if (opaqueError != nullptr)
  #ifdef __cpp_exceptions
      throw (Swift::Error(opaqueError));
  #else
      return SWIFT_RETURN_THUNK(float, Swift::Error(opaqueError));
  #endif
    return SWIFT_RETURN_THUNK(float, returnValue);
  }
  \<close>
  The call of \<open>_impl::$s9Functions8divisionySfSi_SitKF\<close> runs the Swift function. What it
  hands back is the return value and the error slot: the slot stays \<open>nullptr\<close> (\<open>None\<close>)
  when the function returns and holds the thrown error when it throws. In that case the
  return value is whatever the return register holds; it is the parameter \<open>junk\<close>. When
  the Swift function traps, the call never comes back (\<open>None\<close>).
\<close>

record 'a impl_return =
  returnValue :: 'a
  opaqueError :: "error_value option"

definition division_impl :: "Float \<Rightarrow> swift_Int \<Rightarrow> swift_Int \<Rightarrow> Float impl_return option" where
  "division_impl junk a b =
     (case division a b of
        Returned v \<Rightarrow> Some \<lparr>returnValue = v, opaqueError = None\<rparr>
      | Thrown c \<Rightarrow> Some \<lparr>returnValue = junk, opaqueError = Some (DivByZero_value c)\<rparr>
      | Trapped \<Rightarrow> None)"

text \<open>
  With \<open>__cpp_exceptions\<close> defined, \<open>SWIFT_RETURN_THUNK(float, v)\<close> is \<open>v\<close> and the
  function returns a \<open>float\<close> or throws a \<open>Swift::Error\<close>.
\<close>

definition division_cxx_exceptions :: "Float \<Rightarrow> swift_Int \<Rightarrow> swift_Int \<Rightarrow> (Error, Float) outcome" where
  "division_cxx_exceptions junk a b =
     (case division_impl junk a b of
        None \<Rightarrow> Trapped
      | Some r \<Rightarrow>
          (case opaqueError r of
             Some p \<Rightarrow> Thrown (Error_init p)
           | None \<Rightarrow> Returned (returnValue r)))"

text \<open>
  Without \<open>__cpp_exceptions\<close>, \<open>SWIFT_RETURN_THUNK(float, v)\<close> is
  \<open>Swift::Expected<float>(v)\<close> and the function returns a \<open>Swift::Expected<float>\<close>;
  \<open>None\<close> stands for the trapped process.
\<close>

definition division_cxx_expected :: "Float \<Rightarrow> swift_Int \<Rightarrow> swift_Int \<Rightarrow> Float Expected option" where
  "division_cxx_expected junk a b =
     (case division_impl junk a b of
        None \<Rightarrow> None
      | Some r \<Rightarrow>
          (case opaqueError r of
             Some p \<Rightarrow> Some (Expected_of_error (Error_init p))
           | None \<Rightarrow> Some (Expected_of_value (returnValue r))))"

section \<open>Facts about \<open>Int\<close>\<close>

lemma sint_Int_min: "sint Int_min = - (2 ^ 63)"
  by (simp add: Int_min_def)

lemma sint_Int_max: "sint Int_max = 2 ^ 63 - 1"
  by (simp add: Int_max_def)

lemma Int_min_iff: "a = Int_min \<longleftrightarrow> sint a = - (2 ^ 63)"
  by (simp add: word_eq_iff_signed [where 'a = int] sint_Int_min)

lemma minus_one_iff: "(b :: swift_Int) = - 1 \<longleftrightarrow> sint b = - 1"
  by (simp add: word_eq_iff_signed [where 'a = int])

lemma zero_iff: "(b :: swift_Int) = 0 \<longleftrightarrow> sint b = 0"
  by (simp add: signed_eq_0_iff)

lemma sint_bounds: "- (2 ^ 63) \<le> sint (a :: swift_Int)" "sint (a :: swift_Int) < 2 ^ 63"
  using sint_ge [of a] sint_lt [of a] by simp_all

lemma Int_min_neq_0: "Int_min \<noteq> 0"
proof
  assume "Int_min = 0"
  then have "sint Int_min = sint (0 :: swift_Int)" by simp
  then show False by (simp add: sint_Int_min)
qed

text \<open>
  The quotient rounded towards zero of two 64-bit values fits in 64 bits, the one pair
  \<open>- 2 ^ 63\<close>, \<open>- 1\<close> apart.
\<close>

lemma sdiv_bounds:
  fixes x y :: int
  assumes x: "- (2 ^ 63) \<le> x" "x < 2 ^ 63" and y: "y \<noteq> 0"
    and ov: "\<not> (x = - (2 ^ 63) \<and> y = - 1)"
  shows "- (2 ^ 63) \<le> x sdiv y \<and> x sdiv y < 2 ^ 63"
proof -
  define d where "d = \<bar>x\<bar> div \<bar>y\<bar>"
  have d0: "0 \<le> d"
    by (simp add: d_def pos_imp_zdiv_nonneg_iff y)
  have "d \<le> \<bar>x\<bar> div 1"
    unfolding d_def using y by (intro zdiv_mono2) auto
  then have dx: "d \<le> \<bar>x\<bar>" by simp
  have q: "x sdiv y = sgn x * sgn y * d"
    by (simp add: signed_divide_int_def d_def)
  consider "x = 0" | "0 < x" "0 < y" | "0 < x" "y < 0" | "x < 0" "0 < y" | "x < 0" "y < 0"
    using y by linarith
  then show ?thesis
  proof cases
    case 1
    then show ?thesis by (simp add: q)
  next
    case 2
    then show ?thesis using d0 dx x by (simp add: q)
  next
    case 3
    then show ?thesis using d0 dx x by (simp add: q)
  next
    case 4
    then show ?thesis using d0 dx x by (simp add: q)
  next
    case 5
    have "d < 2 ^ 63"
    proof (cases "y = - 1")
      case True
      with ov have "x \<noteq> - (2 ^ 63)" by simp
      with x dx 5 show ?thesis by simp
    next
      case False
      with 5 have "2 \<le> \<bar>y\<bar>" by simp
      then have "d \<le> \<bar>x\<bar> div 2"
        unfolding d_def by (intro zdiv_mono2) auto
      with x 5 show ?thesis by simp
    qed
    with 5 d0 show ?thesis by (simp add: q)
  qed
qed

lemma sint_quotient:
  fixes a b :: swift_Int
  assumes "b \<noteq> 0" "\<not> (a = Int_min \<and> b = - 1)"
  shows "sint (word_of_int (sint a sdiv sint b) :: swift_Int) = sint a sdiv sint b"
proof -
  have "- (2 ^ 63) \<le> sint a sdiv sint b \<and> sint a sdiv sint b < 2 ^ 63"
    using assms by (intro sdiv_bounds sint_bounds) (simp_all add: zero_iff Int_min_iff minus_one_iff)
  then show ?thesis
    by (simp add: sint_sbintrunc' signed_take_bit_int_eq_self)
qed

lemma Float_round_exact: "\<bar>n\<bar> < 2 ^ 24 \<Longrightarrow> Float_round n = n"
  by (simp add: Float_round_def)

section \<open>Facts about the function and its shim\<close>

lemma division_Int_min: "division Int_min (- 1) = Trapped"
  by (simp add: division_def Int_divide_def Int_min_neq_0)

lemma division_Trapped_iff: "division a b = Trapped \<longleftrightarrow> a = Int_min \<and> b = - 1"
  by (auto simp add: division_def Int_divide_def Int_min_neq_0)

text \<open>Every invocation has a run, the one that the function \<open>division\<close> computes.\<close>

lemma division_run_division: "division_run a b (division a b)"
  by (cases "Int_divide a b") (auto simp add: division_def intro: division_run.intros)

lemma division_run_total: "\<exists>r. division_run a b r"
  using division_run_division by blast

text \<open>Each mode of the shim, read off the outcome of the Swift function.\<close>

lemma division_cxx_exceptions_eq:
  "division_cxx_exceptions junk a b =
     (case division a b of
        Returned v \<Rightarrow> Returned v
      | Thrown c \<Rightarrow> Thrown (Error_init (DivByZero_value c))
      | Trapped \<Rightarrow> Trapped)"
  by (simp add: division_cxx_exceptions_def division_impl_def split: outcome.split)

lemma division_cxx_expected_eq:
  "division_cxx_expected junk a b =
     (case division a b of
        Returned v \<Rightarrow> Some (Expected_of_value v)
      | Thrown c \<Rightarrow> Some (Expected_of_error (Error_init (DivByZero_value c)))
      | Trapped \<Rightarrow> None)"
  by (simp add: division_cxx_expected_def division_impl_def split: outcome.split)

text \<open>The cast of a fresh Carrier, for an error value of any domain.\<close>

lemma as_domain_Error_init:
  "as_domain D (Error_init p) = (if domain_of p = D then Some p else None, Error_init p)"
  by (simp add: as_domain_def Error_init_def)

section \<open>The claims\<close>

text \<open>
  Claim C1, as amended. For all operands \<open>a\<close>, \<open>b\<close> with \<open>b \<noteq> 0\<close>, the pair
  \<open>a = Int.min\<close>, \<open>b = -1\<close> apart, \<open>division\<close> returns, and the value is the quotient of
  \<open>a\<close> by \<open>b\<close> rounded towards zero (\<open>sdiv\<close> on the integers that \<open>a\<close> and \<open>b\<close> denote),
  converted to \<open>Float\<close>. So \<open>division(4,2)\<close> is \<open>2.0\<close>, and \<open>division(7,2)\<close> is \<open>3.0\<close>
  rather than \<open>3.5\<close>.
\<close>

theorem division_succeeds:
  assumes "b \<noteq> 0" and "\<not> (a = Int_min \<and> b = - 1)"
  shows "division a b = Returned (of_int (Float_round (sint a sdiv sint b)))"
  using assms by (simp add: division_def Int_divide_def Float_init_def sint_quotient)

theorem division_succeeds_witness:
  "(2 :: swift_Int) \<noteq> 0 \<and> \<not> ((4 :: swift_Int) = Int_min \<and> (2 :: swift_Int) = - 1)
   \<and> division 4 2 = Returned 2 \<and> division 7 2 = Returned 3 \<and> division (- 7) 2 = Returned (- 3)"
  using division_succeeds [where a = 4 and b = 2] division_succeeds [where a = 7 and b = 2]
    division_succeeds [where a = "- 7" and b = 2]
  by (simp add: Int_min_iff signed_divide_int_def Float_round_def)

text \<open>
  Claim C1 as first stated, for every \<open>b \<noteq> 0\<close>, fails: with \<open>a = Int.min\<close> and \<open>b = -1\<close>
  the divisor is not zero and the call does not return.
\<close>

theorem division_succeeds_counterexample:
  "(- 1 :: swift_Int) \<noteq> 0 \<and> \<not> is_Returned (division Int_min (- 1))"
  by (simp add: division_Int_min)

text \<open>
  Claim C2. When \<open>a = 0\<close> and \<open>b = 0\<close>, \<open>division\<close> throws \<open>bothAreZero\<close>; the shim throws
  the Carrier of that case when exceptions are enabled and returns it as the error of the
  \<open>Expected\<close> when they are not; the cast to \<open>DivByZero\<close> gives the case back.
\<close>

theorem division_both_zero:
  assumes "a = 0" and "b = 0"
  shows "division a b = Thrown bothAreZero
    \<and> division_cxx_exceptions junk a b = Thrown (Error_init (DivByZero_value bothAreZero))
    \<and> division_cxx_expected junk a b =
        Some (Expected_of_error (Error_init (DivByZero_value bothAreZero)))
    \<and> fst (as_domain DivByZero_domain (Error_init (DivByZero_value bothAreZero))) =
        Some (DivByZero_value bothAreZero)"
proof -
  from assms have "division a b = Thrown bothAreZero"
    by (simp add: division_def)
  then show ?thesis
    by (simp add: division_cxx_exceptions_eq division_cxx_expected_eq as_domain_Error_init)
qed

theorem division_both_zero_witness:
  "division 0 0 = Thrown bothAreZero
    \<and> division_cxx_exceptions 0 0 0 = Thrown (Error_init (DivByZero_value bothAreZero))
    \<and> division_cxx_expected 0 0 0 =
        Some (Expected_of_error (Error_init (DivByZero_value bothAreZero)))
    \<and> fst (as_domain DivByZero_domain (Error_init (DivByZero_value bothAreZero))) =
        Some (DivByZero_value bothAreZero)"
  using division_both_zero [of 0 0 0] by simp

text \<open>
  Claim C3. When \<open>a \<noteq> 0\<close> and \<open>b = 0\<close>, \<open>division\<close> throws \<open>divisorIsZero\<close>, and both
  modes of the shim deliver the Carrier of that case.
\<close>

theorem division_divisor_zero:
  assumes "a \<noteq> 0" and "b = 0"
  shows "division a b = Thrown divisorIsZero
    \<and> division_cxx_exceptions junk a b = Thrown (Error_init (DivByZero_value divisorIsZero))
    \<and> division_cxx_expected junk a b =
        Some (Expected_of_error (Error_init (DivByZero_value divisorIsZero)))
    \<and> fst (as_domain DivByZero_domain (Error_init (DivByZero_value divisorIsZero))) =
        Some (DivByZero_value divisorIsZero)"
proof -
  from assms have "division a b = Thrown divisorIsZero"
    by (simp add: division_def)
  then show ?thesis
    by (simp add: division_cxx_exceptions_eq division_cxx_expected_eq as_domain_Error_init)
qed

theorem division_divisor_zero_witness:
  "(1 :: swift_Int) \<noteq> 0 \<and> division 1 0 = Thrown divisorIsZero
    \<and> division_cxx_exceptions 0 1 0 = Thrown (Error_init (DivByZero_value divisorIsZero))
    \<and> division_cxx_expected 0 1 0 =
        Some (Expected_of_error (Error_init (DivByZero_value divisorIsZero)))
    \<and> fst (as_domain DivByZero_domain (Error_init (DivByZero_value divisorIsZero))) =
        Some (DivByZero_value divisorIsZero)"
  using division_divisor_zero [of 1 0 0] by simp

text \<open>
  Claim C4. On the same operands the two modes agree: one returns the value \<open>v\<close> exactly
  when the other holds \<open>v\<close>, one throws the Carrier \<open>e\<close> exactly when the other holds \<open>e\<close>
  as its error (so every cast recovers the same case from both), and one traps exactly
  when the other does. What the return register holds after a throw (\<open>junk\<close>, \<open>junk'\<close>)
  has no influence.
\<close>

theorem mode_equivalence:
  "(division_cxx_exceptions junk a b = Returned v \<longleftrightarrow>
      division_cxx_expected junk' a b = Some (Expected_of_value v))
   \<and> (division_cxx_exceptions junk a b = Thrown e \<longleftrightarrow>
      division_cxx_expected junk' a b = Some (Expected_of_error e))
   \<and> (division_cxx_exceptions junk a b = Trapped \<longleftrightarrow>
      division_cxx_expected junk' a b = None)"
  by (cases "division a b") (simp_all add: division_cxx_exceptions_eq division_cxx_expected_eq)

theorem mode_equivalence_witness:
  "(division_cxx_exceptions 0 1 0 = Thrown (Error_init (DivByZero_value divisorIsZero)) \<longleftrightarrow>
      division_cxx_expected 1 1 0 =
        Some (Expected_of_error (Error_init (DivByZero_value divisorIsZero))))
   \<and> division_cxx_exceptions 0 1 0 = Thrown (Error_init (DivByZero_value divisorIsZero))"
  using mode_equivalence [of 0 1 0 _ 1 "Error_init (DivByZero_value divisorIsZero)"]
  by (simp add: division_cxx_exceptions_eq division_def)

text \<open>
  Claim C5. Let the shim fail, in either mode, with the Carrier \<open>e\<close>. Then \<open>division\<close> threw
  some case \<open>c\<close> of \<open>DivByZero\<close>, the cast of \<open>e\<close> to \<open>DivByZero\<close> is present and equal to
  \<open>c\<close>, and the cast to any other domain \<open>D'\<close> is absent; both casts return, leaving \<open>e\<close>
  as it was.
\<close>

theorem as_domain_round_trip:
  assumes "division_cxx_exceptions junk a b = Thrown e
      \<or> division_cxx_expected junk a b = Some (Expected_of_error e)"
    and "D' \<noteq> DivByZero_domain"
  shows "\<exists>c. division a b = Thrown c
      \<and> as_domain DivByZero_domain e = (Some (DivByZero_value c), e)
      \<and> as_domain D' e = (None, e)"
  using assms
  by (cases "division a b")
    (auto simp add: division_cxx_exceptions_eq division_cxx_expected_eq as_domain_Error_init)

theorem as_domain_round_trip_witness:
  "(division_cxx_exceptions 0 1 0 = Thrown (Error_init (DivByZero_value divisorIsZero))
      \<or> division_cxx_expected 0 1 0 =
          Some (Expected_of_error (Error_init (DivByZero_value divisorIsZero))))
   \<and> Foreign_domain ''IOError'' \<noteq> DivByZero_domain
   \<and> (\<exists>c. division 1 0 = Thrown c
      \<and> as_domain DivByZero_domain (Error_init (DivByZero_value divisorIsZero)) =
          (Some (DivByZero_value c), Error_init (DivByZero_value divisorIsZero))
      \<and> as_domain (Foreign_domain ''IOError'') (Error_init (DivByZero_value divisorIsZero)) =
          (None, Error_init (DivByZero_value divisorIsZero)))"
proof -
  have f: "division_cxx_exceptions 0 1 0 = Thrown (Error_init (DivByZero_value divisorIsZero))"
    by (simp add: division_cxx_exceptions_eq division_def)
  have d: "Foreign_domain ''IOError'' \<noteq> DivByZero_domain"
    by simp
  from as_domain_round_trip [OF disjI1 [OF f] d] f d show ?thesis
    by blast
qed

text \<open>
  Claim C6. For every Carrier \<open>e\<close> and every domain \<open>D\<close>, the cast leaves \<open>e\<close> unchanged,
  and a second cast of the Carrier that the first one leaves gives the same optional.
\<close>

theorem as_domain_idempotent:
  "snd (as_domain D e) = e \<and> as_domain D (snd (as_domain D e)) = as_domain D e"
  by (simp add: as_domain_def)

text \<open>
  Claim C7, as amended. On all operands but \<open>a = Int.min\<close>, \<open>b = -1\<close> the shim comes
  back with exactly one of a value and an error: with exceptions it either returns or
  throws; without, it returns an \<open>Expected\<close> \<open>r\<close> from which exactly one of \<open>value()\<close> and
  \<open>error()\<close> can be taken, and \<open>r\<close> has a value exactly when the other mode returns.
\<close>

theorem shim_exactly_one:
  assumes "\<not> (a = Int_min \<and> b = - 1)"
  shows "is_Returned (division_cxx_exceptions junk a b) \<noteq> is_Thrown (division_cxx_exceptions junk a b)
    \<and> (\<exists>r. division_cxx_expected junk a b = Some r
          \<and> (\<exists>v. Expected_value r = Got v) \<noteq> (\<exists>e. Expected_error r = Got e)
          \<and> has_value r = is_Returned (division_cxx_exceptions junk a b))"
proof -
  from assms have "division a b \<noteq> Trapped"
    by (simp add: division_Trapped_iff)
  then show ?thesis
    by (cases "division a b") (simp_all add: division_cxx_exceptions_eq division_cxx_expected_eq)
qed

theorem shim_exactly_one_witness:
  "\<not> ((1 :: swift_Int) = Int_min \<and> (0 :: swift_Int) = - 1)
    \<and> is_Returned (division_cxx_exceptions 0 1 0) \<noteq> is_Thrown (division_cxx_exceptions 0 1 0)
    \<and> (\<exists>r. division_cxx_expected 0 1 0 = Some r
          \<and> (\<exists>v. Expected_value r = Got v) \<noteq> (\<exists>e. Expected_error r = Got e)
          \<and> has_value r = is_Returned (division_cxx_exceptions 0 1 0))"
proof -
  have h: "\<not> ((1 :: swift_Int) = Int_min \<and> (0 :: swift_Int) = - 1)"
    by simp
  show ?thesis
    using h shim_exactly_one [OF h, of 0] by (rule conjI)
qed

text \<open>
  Claim C7 as first stated, for each invocation, fails: the invocation with
  \<open>a = Int.min\<close>, \<open>b = -1\<close> produces neither a value nor an error, in either mode.
\<close>

theorem shim_exactly_one_counterexample:
  "division_cxx_expected 0 Int_min (- 1) = None
   \<and> \<not> is_Returned (division_cxx_exceptions 0 Int_min (- 1))
   \<and> \<not> is_Thrown (division_cxx_exceptions 0 Int_min (- 1))"
  by (simp add: division_cxx_exceptions_eq division_cxx_expected_eq division_Int_min)

text \<open>
  Claim C8. \<open>value()\<close> on an \<open>Expected\<close> that holds an error aborts, and \<open>error()\<close> on an
  \<open>Expected\<close> that holds a value aborts; neither returns anything.
\<close>

theorem Expected_misuse_aborts:
  assumes "\<not> has_value r" and "has_value r'"
  shows "Expected_value r = Aborted \<and> Expected_error r' = Aborted"
  using assms by (cases r; cases r') simp_all

theorem Expected_misuse_aborts_witness:
  "\<not> has_value (the (division_cxx_expected 0 1 0)) \<and> has_value (the (division_cxx_expected 0 4 2))
   \<and> Expected_value (the (division_cxx_expected 0 1 0)) = Aborted
   \<and> Expected_error (the (division_cxx_expected 0 4 2)) = Aborted"
proof -
  have 1: "division_cxx_expected 0 1 0 =
      Some (Expected_of_error (Error_init (DivByZero_value divisorIsZero)))"
    by (simp add: division_cxx_expected_eq division_def)
  have 2: "division_cxx_expected 0 4 2 = Some (Expected_of_value 2)"
    by (simp add: division_cxx_expected_eq division_def Int_divide_def Int_min_iff
        Float_init_def Float_round_def signed_divide_int_def)
  have a: "\<not> has_value (the (division_cxx_expected 0 1 0))"
    by (simp add: 1)
  have b: "has_value (the (division_cxx_expected 0 4 2))"
    by (simp add: 2)
  from Expected_misuse_aborts [OF a b] a b show ?thesis
    by simp
qed

text \<open>
  Claim C9. With \<open>a = Int.min\<close> and \<open>b = -1\<close> the divisor is not zero, the exact quotient
  is above \<open>Int.max\<close>, the operator \<open>/\<close> traps, and so does \<open>division\<close>: it neither
  returns nor throws a \<open>DivByZero\<close>, and neither mode of the shim comes back.
\<close>

theorem division_Int_min_minus_one_traps:
  "(- 1 :: swift_Int) \<noteq> 0
   \<and> sint Int_max < sint Int_min sdiv sint (- 1 :: swift_Int)
   \<and> Int_divide Int_min (- 1) = None
   \<and> division Int_min (- 1) = Trapped
   \<and> division_cxx_exceptions junk Int_min (- 1) = Trapped
   \<and> division_cxx_expected junk Int_min (- 1) = None"
  by (simp add: division_cxx_exceptions_eq division_cxx_expected_eq division_Int_min
      Int_divide_def sint_Int_min sint_Int_max signed_divide_int_def)



end
